theory Spec2Isabelle
  imports Complex_Main "HOL-Library.AList" "HOL-Library.Char_ord" "HOL-Library.List_Lexorder"
begin

section \<open>Connection state classifier\<close>

text \<open>
  \<^verbatim>\<open>type ConnectionState string\<close>: a label is a Go string, a sequence of bytes.
  \<^verbatim>\<open>strings.HasPrefix(s, prefix)\<close> is
  \<^verbatim>\<open>len(s) >= len(prefix) && s[:len(prefix)] == prefix\<close>.
\<close>

type_synonym ConnectionState = string

definition HasPrefix :: "string \<Rightarrow> string \<Rightarrow> bool" where
  "HasPrefix s p \<longleftrightarrow> length p \<le> length s \<and> take (length p) s = p"

definition IsOperational :: "ConnectionState \<Rightarrow> bool" where
  "IsOperational s \<longleftrightarrow>
     HasPrefix s ''Operational'' \<or> HasPrefix s ''Transfering'' \<or> HasPrefix s ''Paused''"

definition IsPrinting :: "ConnectionState \<Rightarrow> bool" where
  "IsPrinting s \<longleftrightarrow>
     HasPrefix s ''Printing'' \<or> HasPrefix s ''Sending'' \<or> HasPrefix s ''Paused''"

definition IsOffline :: "ConnectionState \<Rightarrow> bool" where
  "IsOffline s \<longleftrightarrow> HasPrefix s ''Offline'' \<or> HasPrefix s ''Closed''"

definition IsError :: "ConnectionState \<Rightarrow> bool" where
  "IsError s \<longleftrightarrow> HasPrefix s ''Error'' \<or> HasPrefix s ''Unknown''"

definition IsConnecting :: "ConnectionState \<Rightarrow> bool" where
  "IsConnecting s \<longleftrightarrow>
     HasPrefix s ''Opening'' \<or> HasPrefix s ''Detecting'' \<or> HasPrefix s ''Connecting'' \<or>
     HasPrefix s ''Detecting''"

text \<open>
  The specification's wording of the prefix test: a label starts with a prefix when it is
  the prefix followed by some remainder, compared byte for byte.
\<close>

definition starts_with :: "string \<Rightarrow> string \<Rightarrow> bool" where
  "starts_with s p \<longleftrightarrow> (\<exists>t. s = p @ t)"

section \<open>JSON documents and Go values\<close>

text \<open>
  Both decoders work through \<^verbatim>\<open>encoding/json\<close> and \<^verbatim>\<open>time\<close> of the Go standard
  library. The library is modelled on value trees instead of bytes: a byte slice handed to
  \<^verbatim>\<open>json.Unmarshal\<close> is either not a JSON text at all (\<open>None\<close>) or a JSON text, given by
  its value tree (\<open>Some\<close>). An object keeps its members in document order, duplicates
  included. A number is the \<^verbatim>\<open>float64\<close> its literal denotes, given by its exact rational
  value (JSON has no NaN and no infinities; a literal beyond the range of \<^verbatim>\<open>float64\<close>
  is refused by \<^verbatim>\<open>json.Unmarshal\<close> and is not a document of the model). A string is
  the decoded Go string; the one thing the decoders ever ask of a string is whether it is
  the RFC 3339 rendering of a time, so a string is either \<open>Stamp t\<close>, the rendering of the
  instant \<open>t\<close>, or \<open>Chars s\<close>, any other string.
\<close>

record time_Time =
  sec :: int
  nsec :: int

datatype jstr = Chars string | Stamp time_Time

datatype json =
    JNull
  | JBool bool
  | JNumber rat
  | JString jstr
  | JArray "json list"
  | JObject "(string \<times> json) list"

type_synonym bytes = "json option"

datatype error = SyntaxError | UnmarshalTypeError | TimeParseError

text \<open>
  What \<^verbatim>\<open>json.Unmarshal\<close> stores into an \<^verbatim>\<open>interface{}\<close>: \<^verbatim>\<open>nil\<close>, \<^verbatim>\<open>bool\<close>,
  \<^verbatim>\<open>float64\<close>, \<^verbatim>\<open>string\<close>, \<^verbatim>\<open>[]interface{}\<close> and \<^verbatim>\<open>map[string]interface{}\<close>.
  A Go map is an association list kept in increasing key order without duplicate keys, so
  that two equal maps are equal lists: \<open>store\<close> is \<^verbatim>\<open>m[k] = v\<close>, \<open>map_index\<close> is
  \<^verbatim>\<open>m[k]\<close> and \<open>map_delete\<close> is \<^verbatim>\<open>delete(m, k)\<close>. Keys compare as byte strings.
\<close>

datatype val =
    VNil
  | VBool bool
  | VFloat64 rat
  | VString jstr
  | VSlice "val list"
  | VMap "(string \<times> val) list"

type_synonym 'v gomap = "(string \<times> 'v) list"

fun store :: "string \<Rightarrow> 'v \<Rightarrow> 'v gomap \<Rightarrow> 'v gomap" where
  "store k v [] = [(k, v)]"
| "store k v ((k', v') # m) =
     (if k = k' then (k, v) # m
      else if k < k' then (k, v) # (k', v') # m
      else (k', v') # store k v m)"

definition map_index :: "'v gomap \<Rightarrow> string \<Rightarrow> 'v option" where
  "map_index m k = map_of m k"

definition map_delete :: "'v gomap \<Rightarrow> string \<Rightarrow> 'v gomap" where
  "map_delete m k = AList.delete k m"

text \<open>Decoding an object into a map stores its members in document order: the last of
  several members with one key wins.\<close>

fun store_all :: "'v gomap \<Rightarrow> (string \<times> 'v) list \<Rightarrow> 'v gomap" where
  "store_all m [] = m"
| "store_all m ((k, v) # kvs) = store_all (store k v m) kvs"

fun to_interface :: "json \<Rightarrow> val" where
  "to_interface JNull = VNil"
| "to_interface (JBool b) = VBool b"
| "to_interface (JNumber f) = VFloat64 f"
| "to_interface (JString s) = VString s"
| "to_interface (JArray xs) = VSlice (map to_interface xs)"
| "to_interface (JObject ms) = VMap (store_all [] (map (\<lambda>(k, v). (k, to_interface v)) ms))"

text \<open>\<^verbatim>\<open>json.Marshal\<close> of such a value; the members of a map are written in sorted key
  order.\<close>

fun Marshal_value :: "val \<Rightarrow> json" where
  "Marshal_value VNil = JNull"
| "Marshal_value (VBool b) = JBool b"
| "Marshal_value (VFloat64 f) = JNumber f"
| "Marshal_value (VString s) = JString s"
| "Marshal_value (VSlice xs) = JArray (map Marshal_value xs)"
| "Marshal_value (VMap m) = JObject (sort_key fst (map (\<lambda>(k, v). (k, Marshal_value v)) m))"

text \<open>
  \<^verbatim>\<open>var raw map[string]interface{}; json.Unmarshal(b, &raw)\<close>. The text \<^verbatim>\<open>null\<close> leaves
  \<open>raw\<close> the nil map (\<open>None\<close>) and is no error; any other value that is not an object is an
  \<^verbatim>\<open>UnmarshalTypeError\<close>. Reading a nil map yields \<^verbatim>\<open>nil\<close>, deleting from it does nothing.
\<close>

fun json_Unmarshal_raw :: "bytes \<Rightarrow> error + val gomap option" where
  "json_Unmarshal_raw None = Inl SyntaxError"
| "json_Unmarshal_raw (Some JNull) = Inr None"
| "json_Unmarshal_raw (Some (JObject ms)) =
     Inr (Some (store_all [] (map (\<lambda>(k, v). (k, to_interface v)) ms)))"
| "json_Unmarshal_raw (Some _) = Inl UnmarshalTypeError"

definition raw_index :: "val gomap option \<Rightarrow> string \<Rightarrow> val" where
  "raw_index raw k =
     (case raw of
        None \<Rightarrow> VNil
      | Some m \<Rightarrow> (case map_index m k of None \<Rightarrow> VNil | Some v \<Rightarrow> v))"

definition raw_delete :: "val gomap option \<Rightarrow> string \<Rightarrow> val gomap option" where
  "raw_delete raw k = map_option (\<lambda>m. map_delete m k) raw"

section \<open>Times\<close>

text \<open>
  A \<^verbatim>\<open>time.Time\<close> is its instant: seconds since 1970-01-01T00:00:00Z and nanoseconds
  within the second. The location is left out; the process's local zone is taken to be
  UTC, so that the RFC 3339 rendering of \<^verbatim>\<open>time.Unix(s, 0)\<close> reads back as the same
  instant and its year is the year in UTC. \<^verbatim>\<open>int64(f)\<close> truncates towards zero;
  outside the range of \<^verbatim>\<open>int64\<close> the result depends on the platform and is the least
  \<^verbatim>\<open>int64\<close> here, as on amd64.
  \<^verbatim>\<open>Time.MarshalJSON\<close> fails when the year is outside 0..9999, that is before
  0000-01-01T00:00:00Z or from 10000-01-01T00:00:00Z on.
\<close>

definition time_Unix :: "int \<Rightarrow> int \<Rightarrow> time_Time" where
  "time_Unix s n = \<lparr>sec = s + n div 1000000000, nsec = n mod 1000000000\<rparr>"

definition int64 :: "rat \<Rightarrow> int" where
  "int64 f =
     (let t = (if 0 \<le> f then \<lfloor>f\<rfloor> else \<lceil>f\<rceil>)
      in if - (2 ^ 63) \<le> t \<and> t < 2 ^ 63 then t else - (2 ^ 63))"

definition year_in_range :: "time_Time \<Rightarrow> bool" where
  "year_in_range t \<longleftrightarrow> - 62167219200 \<le> sec t \<and> sec t < 253402300800"

definition Time_MarshalJSON :: "time_Time \<Rightarrow> json option" where
  "Time_MarshalJSON t = (if year_in_range t then Some (JString (Stamp t)) else None)"

definition zero_Time :: time_Time where
  "zero_Time = \<lparr>sec = - 62135596800, nsec = 0\<rparr>"

section \<open>The data model\<close>

record TemperatureData =
  Actual :: rat
  Target :: rat
  Offset :: rat

record historicTemperatureData =
  Time :: time_Time
  Tools :: "TemperatureData gomap"

type_synonym HistoricTemperatureData = historicTemperatureData

text \<open>\<^verbatim>\<open>History\<close> is a slice of pointers: \<open>None\<close> is the nil pointer. A nil map or slice
  and an empty one are both the empty list.\<close>

record temperatureState =
  Current :: "TemperatureData gomap"
  History :: "HistoricTemperatureData option list"

type_synonym TemperatureState = temperatureState

definition zero_TemperatureData :: TemperatureData where
  "zero_TemperatureData = \<lparr>Actual = 0, Target = 0, Offset = 0\<rparr>"

definition zero_historicTemperatureData :: historicTemperatureData where
  "zero_historicTemperatureData = \<lparr>Time = zero_Time, Tools = []\<rparr>"

definition zero_temperatureState :: temperatureState where
  "zero_temperatureState = \<lparr>Current = [], History = []\<rparr>"

section \<open>Decoding into typed values\<close>

text \<open>
  \<^verbatim>\<open>json.Unmarshal\<close> into a typed value walks the document. A value of the wrong JSON
  type is skipped and the first such \<^verbatim>\<open>UnmarshalTypeError\<close> is kept (\<open>saveError\<close>) and
  returned when the walk is over; an error returned by an \<^verbatim>\<open>UnmarshalJSON\<close> method ends
  the walk at once (\<open>Abort\<close>); a panic in such a method unwinds the whole call (\<open>Crash\<close>).
\<close>

datatype 'a outcome = Returns 'a | Panics

datatype 'a step = Next 'a "error option" | Abort error | Crash

definition saveError :: "error option \<Rightarrow> error \<Rightarrow> error option" where
  "saveError saved e = (case saved of None \<Rightarrow> Some e | Some e0 \<Rightarrow> Some e0)"

definition map_step :: "('a \<Rightarrow> 'b) \<Rightarrow> 'a step \<Rightarrow> 'b step" where
  "map_step g st = (case st of Next a saved \<Rightarrow> Next (g a) saved | Abort e \<Rightarrow> Abort e | Crash \<Rightarrow> Crash)"

fun fold_steps ::
    "('x \<Rightarrow> 'a \<Rightarrow> error option \<Rightarrow> 'a step) \<Rightarrow> 'x list \<Rightarrow> 'a \<Rightarrow> error option \<Rightarrow> 'a step" where
  "fold_steps f [] a saved = Next a saved"
| "fold_steps f (x # xs) a saved =
     (case f x a saved of
        Next a' saved' \<Rightarrow> fold_steps f xs a' saved'
      | Abort e \<Rightarrow> Abort e
      | Crash \<Rightarrow> Crash)"

definition finish :: "'a step \<Rightarrow> (error + 'a) outcome" where
  "finish st =
     (case st of
        Next a None \<Rightarrow> Returns (Inr a)
      | Next a (Some e) \<Rightarrow> Returns (Inl e)
      | Abort e \<Rightarrow> Returns (Inl e)
      | Crash \<Rightarrow> Panics)"

text \<open>
  An object member is matched to a struct field by its name, exactly or after case folding:
  ASCII letters fold to upper case, and so do the two other letters whose fold is ASCII,
  U+017F (bytes C5 BF, to \<open>S\<close>) and U+212A (bytes E2 84 AA, to \<open>K\<close>). A member that
  matches no field is skipped.
\<close>

definition upper :: "char \<Rightarrow> char" where
  "upper c = (if CHR ''a'' \<le> c \<and> c \<le> CHR ''z'' then char_of (of_char c - (32::nat)) else c)"

fun foldName :: "string \<Rightarrow> string" where
  "foldName [] = []"
| "foldName (c # cs) =
     (if c = CHR 0xC5 \<and> take 1 cs = [CHR 0xBF] then CHR ''S'' # foldName (drop 1 cs)
      else if c = CHR 0xE2 \<and> take 2 cs = [CHR 0x84, CHR 0xAA] then CHR ''K'' # foldName (drop 2 cs)
      else upper c # foldName cs)"

fun decode_float64 :: "json \<Rightarrow> rat \<Rightarrow> error option \<Rightarrow> rat step" where
  "decode_float64 (JNumber f) old saved = Next f saved"
| "decode_float64 JNull old saved = Next old saved"
| "decode_float64 _ old saved = Next old (saveError saved UnmarshalTypeError)"

definition decode_TemperatureData_field ::
    "string \<times> json \<Rightarrow> TemperatureData \<Rightarrow> error option \<Rightarrow> TemperatureData step" where
  "decode_TemperatureData_field kv d saved =
     (let name = foldName (fst kv) in
      if name = ''ACTUAL'' then
        map_step (\<lambda>x. d\<lparr>Actual := x\<rparr>) (decode_float64 (snd kv) (Actual d) saved)
      else if name = ''TARGET'' then
        map_step (\<lambda>x. d\<lparr>Target := x\<rparr>) (decode_float64 (snd kv) (Target d) saved)
      else if name = ''OFFSET'' then
        map_step (\<lambda>x. d\<lparr>Offset := x\<rparr>) (decode_float64 (snd kv) (Offset d) saved)
      else Next d saved)"

fun decode_TemperatureData ::
    "json \<Rightarrow> TemperatureData \<Rightarrow> error option \<Rightarrow> TemperatureData step" where
  "decode_TemperatureData JNull d saved = Next d saved"
| "decode_TemperatureData (JObject ms) d saved =
     fold_steps decode_TemperatureData_field ms d saved"
| "decode_TemperatureData _ d saved = Next d (saveError saved UnmarshalTypeError)"

text \<open>\<^verbatim>\<open>map[string]TemperatureData\<close>: every member is decoded into a fresh element, which
  is stored under the member's key even when a type error was found in it. \<^verbatim>\<open>null\<close>
  sets a map or a slice to nil.\<close>

definition decode_map_entry ::
    "string \<times> json \<Rightarrow> TemperatureData gomap \<Rightarrow> error option \<Rightarrow> TemperatureData gomap step" where
  "decode_map_entry kv m saved =
     map_step (\<lambda>d. store (fst kv) d m)
       (decode_TemperatureData (snd kv) zero_TemperatureData saved)"

fun decode_map ::
    "json \<Rightarrow> TemperatureData gomap \<Rightarrow> error option \<Rightarrow> TemperatureData gomap step" where
  "decode_map JNull m saved = Next [] saved"
| "decode_map (JObject ms) m saved = fold_steps decode_map_entry ms m saved"
| "decode_map _ m saved = Next m (saveError saved UnmarshalTypeError)"

text \<open>\<^verbatim>\<open>Time.UnmarshalJSON\<close>: \<^verbatim>\<open>null\<close> is ignored, the rendering of a time gives that
  time, anything else is the method's error.\<close>

fun Time_UnmarshalJSON :: "json \<Rightarrow> time_Time \<Rightarrow> error option \<Rightarrow> time_Time step" where
  "Time_UnmarshalJSON JNull t saved = Next t saved"
| "Time_UnmarshalJSON (JString (Stamp t')) t saved = Next t' saved"
| "Time_UnmarshalJSON _ t saved = Abort TimeParseError"

definition decode_historicTemperatureData_field ::
    "string \<times> json \<Rightarrow> historicTemperatureData \<Rightarrow> error option \<Rightarrow> historicTemperatureData step"
  where
  "decode_historicTemperatureData_field kv i saved =
     (let name = foldName (fst kv) in
      if name = ''TIME'' then
        map_step (\<lambda>t. i\<lparr>Time := t\<rparr>) (Time_UnmarshalJSON (snd kv) (Time i) saved)
      else if name = ''TOOLS'' then
        map_step (\<lambda>m. i\<lparr>Tools := m\<rparr>) (decode_map (snd kv) (Tools i) saved)
      else Next i saved)"

fun json_Unmarshal_historicTemperatureData ::
    "bytes \<Rightarrow> historicTemperatureData \<Rightarrow> (error + historicTemperatureData) outcome" where
  "json_Unmarshal_historicTemperatureData None i = Returns (Inl SyntaxError)"
| "json_Unmarshal_historicTemperatureData (Some JNull) i = Returns (Inr i)"
| "json_Unmarshal_historicTemperatureData (Some (JObject ms)) i =
     finish (fold_steps decode_historicTemperatureData_field ms i None)"
| "json_Unmarshal_historicTemperatureData (Some _) i = Returns (Inl UnmarshalTypeError)"

section \<open>Encoding the two-bucket documents\<close>

text \<open>
  The values the decoders put into the map literal they hand to \<^verbatim>\<open>json.Marshal\<close>: a
  decoded value, the map \<open>raw\<close> (written as \<^verbatim>\<open>null\<close> when nil) or a \<^verbatim>\<open>time.Time\<close>.
  \<^verbatim>\<open>json.Marshal\<close> fails as a whole when one member fails; the decoders drop its error
  (\<^verbatim>\<open>b, _ = json.Marshal(...)\<close>) and go on with the empty byte slice, which is no JSON
  text.
\<close>

datatype arg = Value val | MapValue "val gomap option" | TimeValue time_Time

fun Marshal_arg :: "arg \<Rightarrow> json option" where
  "Marshal_arg (Value v) = Some (Marshal_value v)"
| "Marshal_arg (MapValue None) = Some JNull"
| "Marshal_arg (MapValue (Some m)) = Some (Marshal_value (VMap m))"
| "Marshal_arg (TimeValue t) = Time_MarshalJSON t"

fun Marshal_members :: "(string \<times> arg) list \<Rightarrow> (string \<times> json) list option" where
  "Marshal_members [] = Some []"
| "Marshal_members ((k, a) # m) =
     (case Marshal_arg a of
        None \<Rightarrow> None
      | Some j \<Rightarrow> map_option (\<lambda>js. (k, j) # js) (Marshal_members m))"

definition json_Marshal :: "(string \<times> arg) list \<Rightarrow> bytes" where
  "json_Marshal m = map_option (\<lambda>js. JObject (sort_key fst js)) (Marshal_members m)"

section \<open>The two decoders\<close>

text \<open>
  \<^verbatim>\<open>func (h *HistoricTemperatureData) UnmarshalJSON(b []byte) error\<close>. The model takes
  the receiver's value and the bytes and gives the receiver's new value and the returned
  error (\<open>None\<close> is \<^verbatim>\<open>nil\<close>), or \<open>Panics\<close>. The type assertion \<^verbatim>\<open>ts.(float64)\<close> panics
  unless \<open>ts\<close> holds a \<^verbatim>\<open>float64\<close>. \<open>HistoricTemperatureData_split\<close> is the document built
  from \<open>raw\<close> (source lines 162 to 167).
\<close>

definition HistoricTemperatureData_split :: "val gomap option \<Rightarrow> bytes outcome" where
  "HistoricTemperatureData_split raw0 =
     (let ts = raw_index raw0 ''time'';
          raw = raw_delete raw0 ''time''
      in case ts of
           VFloat64 f \<Rightarrow>
             Returns (json_Marshal
               [(''time'', TimeValue (time_Unix (int64 f) 0)), (''tools'', MapValue raw)])
         | _ \<Rightarrow> Panics)"

definition HistoricTemperatureData_UnmarshalJSON ::
    "HistoricTemperatureData \<Rightarrow> bytes \<Rightarrow> (HistoricTemperatureData \<times> error option) outcome" where
  "HistoricTemperatureData_UnmarshalJSON h b =
     (case json_Unmarshal_raw b of
        Inl err \<Rightarrow> Returns (h, Some err)
      | Inr raw \<Rightarrow>
          (case HistoricTemperatureData_split raw of
             Panics \<Rightarrow> Panics
           | Returns b' \<Rightarrow>
               (case json_Unmarshal_historicTemperatureData b' zero_historicTemperatureData of
                  Returns (Inl err) \<Rightarrow> Returns (h, Some err)
                | Returns (Inr i) \<Rightarrow> Returns (i, None)
                | Panics \<Rightarrow> Panics)))"

text \<open>
  An element of \<^verbatim>\<open>[]*HistoricTemperatureData\<close>: \<^verbatim>\<open>null\<close> is the nil pointer; for any
  other value a fresh \<^verbatim>\<open>HistoricTemperatureData\<close> is allocated and its
  \<^verbatim>\<open>UnmarshalJSON\<close> is called on the element's text.
\<close>

definition decode_pointer_HistoricTemperatureData ::
    "json \<Rightarrow> HistoricTemperatureData option list \<Rightarrow> error option
      \<Rightarrow> HistoricTemperatureData option list step" where
  "decode_pointer_HistoricTemperatureData x acc saved =
     (if x = JNull then Next (acc @ [None]) saved
      else case HistoricTemperatureData_UnmarshalJSON zero_historicTemperatureData (Some x) of
             Returns (h, None) \<Rightarrow> Next (acc @ [Some h]) saved
           | Returns (h, Some err) \<Rightarrow> Abort err
           | Panics \<Rightarrow> Crash)"

fun decode_History ::
    "json \<Rightarrow> HistoricTemperatureData option list \<Rightarrow> error option
      \<Rightarrow> HistoricTemperatureData option list step" where
  "decode_History JNull hs saved = Next [] saved"
| "decode_History (JArray xs) hs saved =
     fold_steps decode_pointer_HistoricTemperatureData xs [] saved"
| "decode_History _ hs saved = Next hs (saveError saved UnmarshalTypeError)"

definition decode_temperatureState_field ::
    "string \<times> json \<Rightarrow> temperatureState \<Rightarrow> error option \<Rightarrow> temperatureState step" where
  "decode_temperatureState_field kv i saved =
     (let name = foldName (fst kv) in
      if name = ''CURRENT'' then
        map_step (\<lambda>m. i\<lparr>Current := m\<rparr>) (decode_map (snd kv) (Current i) saved)
      else if name = ''HISTORY'' then
        map_step (\<lambda>hs. i\<lparr>History := hs\<rparr>) (decode_History (snd kv) (History i) saved)
      else Next i saved)"

fun json_Unmarshal_temperatureState ::
    "bytes \<Rightarrow> temperatureState \<Rightarrow> (error + temperatureState) outcome" where
  "json_Unmarshal_temperatureState None i = Returns (Inl SyntaxError)"
| "json_Unmarshal_temperatureState (Some JNull) i = Returns (Inr i)"
| "json_Unmarshal_temperatureState (Some (JObject ms)) i =
     finish (fold_steps decode_temperatureState_field ms i None)"
| "json_Unmarshal_temperatureState (Some _) i = Returns (Inl UnmarshalTypeError)"

text \<open>
  \<^verbatim>\<open>func (r *TemperatureState) UnmarshalJSON(b []byte) error\<close>;
  \<open>TemperatureState_split\<close> is the document built from \<open>raw\<close> (source lines 101 to 106).
\<close>

definition TemperatureState_split :: "val gomap option \<Rightarrow> bytes" where
  "TemperatureState_split raw0 =
     (let history = raw_index raw0 ''history'';
          raw = raw_delete raw0 ''history''
      in json_Marshal [(''current'', MapValue raw), (''history'', Value history)])"

definition TemperatureState_UnmarshalJSON ::
    "TemperatureState \<Rightarrow> bytes \<Rightarrow> (TemperatureState \<times> error option) outcome" where
  "TemperatureState_UnmarshalJSON r b =
     (case json_Unmarshal_raw b of
        Inl err \<Rightarrow> Returns (r, Some err)
      | Inr raw \<Rightarrow>
          (case json_Unmarshal_temperatureState (TemperatureState_split raw)
                  zero_temperatureState of
             Returns (Inl err) \<Rightarrow> Returns (r, Some err)
           | Returns (Inr i) \<Rightarrow> Returns (i, None)
           | Panics \<Rightarrow> Panics))"

section \<open>Well-formed payloads\<close>











section \<open>Auxiliary notions for the proofs\<close>




section \<open>Properties of the classifier\<close>

lemma HasPrefix_starts_with: "HasPrefix s p \<longleftrightarrow> starts_with s p"
proof
  assume "HasPrefix s p"
  then have "s = p @ drop (length p) s"
    by (metis HasPrefix_def append_take_drop_id)
  then show "starts_with s p"
    unfolding starts_with_def by blast
next
  assume "starts_with s p"
  then obtain t where "s = p @ t"
    unfolding starts_with_def by blast
  then show "HasPrefix s p"
    by (simp add: HasPrefix_def)
qed

text \<open>
  C2: each of the five predicates holds exactly when the label starts with one of the
  prefixes of its family; the comparison is on the bytes as they are (case-sensitive,
  nothing trimmed).
\<close>

theorem classifier_prefix_families:
  "(IsOperational s \<longleftrightarrow>
      starts_with s ''Operational'' \<or> starts_with s ''Transfering'' \<or> starts_with s ''Paused'') \<and>
   (IsPrinting s \<longleftrightarrow>
      starts_with s ''Printing'' \<or> starts_with s ''Sending'' \<or> starts_with s ''Paused'') \<and>
   (IsOffline s \<longleftrightarrow> starts_with s ''Offline'' \<or> starts_with s ''Closed'') \<and>
   (IsError s \<longleftrightarrow> starts_with s ''Error'' \<or> starts_with s ''Unknown'') \<and>
   (IsConnecting s \<longleftrightarrow>
      starts_with s ''Opening'' \<or> starts_with s ''Detecting'' \<or> starts_with s ''Connecting'')"
  unfolding IsOperational_def IsPrinting_def IsOffline_def IsError_def IsConnecting_def
    HasPrefix_starts_with
  by blast

text \<open>
  C6: every label that starts with \<open>Paused\<close> is operational and printing at once; for the
  label \<open>Paused\<close> itself the other three predicates are false.
\<close>

theorem paused_operational_and_printing:
  "(starts_with s ''Paused'' \<longrightarrow> IsOperational s \<and> IsPrinting s) \<and>
   IsOperational ''Paused'' \<and> IsPrinting ''Paused'' \<and>
   \<not> IsOffline ''Paused'' \<and> \<not> IsError ''Paused'' \<and> \<not> IsConnecting ''Paused''"
  by (simp add: IsOperational_def IsPrinting_def IsOffline_def IsError_def IsConnecting_def
      HasPrefix_starts_with [symmetric] HasPrefix_def)

theorem paused_operational_and_printing_witness:
  "starts_with ''Paused for filament change'' ''Paused'' \<and>
   IsOperational ''Paused for filament change'' \<and> IsPrinting ''Paused for filament change''"
proof -
  have h: "starts_with ''Paused for filament change'' ''Paused''"
    by (simp add: HasPrefix_starts_with [symmetric] HasPrefix_def)
  with paused_operational_and_printing [of "''Paused for filament change''"]
  show ?thesis by blast
qed

text \<open>
  C7: the predicates are functions from labels to booleans, defined on every string; on a
  label that starts with none of the listed prefixes all five are false, and so they are
  on the empty label.
\<close>

theorem classifier_total_all_false:
  "(\<not> starts_with s ''Operational'' \<and> \<not> starts_with s ''Transfering'' \<and>
    \<not> starts_with s ''Paused'' \<and> \<not> starts_with s ''Printing'' \<and>
    \<not> starts_with s ''Sending'' \<and> \<not> starts_with s ''Offline'' \<and>
    \<not> starts_with s ''Closed'' \<and> \<not> starts_with s ''Error'' \<and>
    \<not> starts_with s ''Unknown'' \<and> \<not> starts_with s ''Opening'' \<and>
    \<not> starts_with s ''Detecting'' \<and> \<not> starts_with s ''Connecting''
    \<longrightarrow> [IsOperational s, IsPrinting s, IsOffline s, IsError s, IsConnecting s] =
         [False, False, False, False, False]) \<and>
   [IsOperational [], IsPrinting [], IsOffline [], IsError [], IsConnecting []] =
     [False, False, False, False, False]"
  by (simp add: IsOperational_def IsPrinting_def IsOffline_def IsError_def IsConnecting_def
      HasPrefix_starts_with [symmetric] HasPrefix_def)

theorem classifier_total_all_false_witness:
  "\<not> starts_with ''Something else entirely'' ''Operational'' \<and>
   \<not> starts_with ''Something else entirely'' ''Sending'' \<and>
   [IsOperational ''Something else entirely'', IsPrinting ''Something else entirely'',
    IsOffline ''Something else entirely'', IsError ''Something else entirely'',
    IsConnecting ''Something else entirely''] = [False, False, False, False, False]"
proof -
  have h: "\<not> starts_with ''Something else entirely'' p"
    if "p \<in> {''Operational'', ''Transfering'', ''Paused'', ''Printing'', ''Sending'',
      ''Offline'', ''Closed'', ''Error'', ''Unknown'', ''Opening'', ''Detecting'',
      ''Connecting''}" for p
    using that by (auto simp add: HasPrefix_starts_with [symmetric] HasPrefix_def)
  from h classifier_total_all_false [of "''Something else entirely''"]
  show ?thesis by simp
qed

section \<open>Go maps as sorted association lists\<close>













section \<open>Encoding a decoded value and decoding it again\<close>















section \<open>Decoding readings and maps of readings\<close>















section \<open>Field names and member order of the two-bucket documents\<close>









section \<open>The historic entry decoder\<close>





text \<open>
  C3: the claim asks for a decode error when \<open>time\<close> is missing or not a number. On
  such entries \<^verbatim>\<open>HistoricTemperatureData.UnmarshalJSON\<close> does not return at all: the
  unchecked type assertion panics.
\<close>

theorem HistoricTemperatureData_UnmarshalJSON_no_time_panics:
  "HistoricTemperatureData_UnmarshalJSON zero_historicTemperatureData
     (Some (JObject [(''tool0'', JObject [(''actual'', JNumber 199), (''target'', JNumber 200)])])) =
     Panics \<and>
   HistoricTemperatureData_UnmarshalJSON zero_historicTemperatureData
     (Some (JObject [(''time'', JString (Chars ''1610000000''))])) = Panics"
  by code_simp



section \<open>The history array\<close>








section \<open>The temperature decoder\<close>










section \<open>The reserved-key split\<close>



section \<open>Errors leave the receiver alone; results depend on the input only\<close>

text \<open>
  C9: whenever one of the two decoders returns a non-nil error, the receiver has the value
  it had before the call.
\<close>

theorem decode_errors_atomic:
  "(TemperatureState_UnmarshalJSON r b = Returns (r', Some e) \<longrightarrow> r' = r) \<and>
   (HistoricTemperatureData_UnmarshalJSON h b = Returns (h', Some e) \<longrightarrow> h' = h)"
  by (auto simp: TemperatureState_UnmarshalJSON_def HistoricTemperatureData_UnmarshalJSON_def
      split: sum.splits outcome.splits)

theorem decode_errors_atomic_witness:
  "(\<exists>e. TemperatureState_UnmarshalJSON
     \<lparr>Current = [(''bed'', \<lparr>Actual = 60, Target = 60, Offset = 0\<rparr>)], History = []\<rparr>
     (Some (JObject [(''tool0'', JNumber 200)])) =
     Returns (\<lparr>Current = [(''bed'', \<lparr>Actual = 60, Target = 60, Offset = 0\<rparr>)], History = []\<rparr>,
       Some e)) \<and>
   (\<exists>e. HistoricTemperatureData_UnmarshalJSON
     \<lparr>Time = \<lparr>sec = 1610000000, nsec = 0\<rparr>, Tools = []\<rparr>
     (Some (JObject [(''time'', JNumber 1610000060), (''tool0'', JBool True)])) =
     Returns (\<lparr>Time = \<lparr>sec = 1610000000, nsec = 0\<rparr>, Tools = []\<rparr>, Some e))"
proof -
  let ?r = "\<lparr>Current = [(''bed'', \<lparr>Actual = 60, Target = 60, Offset = 0\<rparr>)], History = []\<rparr>"
  let ?h = "\<lparr>Time = \<lparr>sec = 1610000000, nsec = 0\<rparr>, Tools = []\<rparr>"
  let ?b = "Some (JObject [(''tool0'', JNumber 200)])"
  let ?c = "Some (JObject [(''time'', JNumber 1610000060), (''tool0'', JBool True)])"
  have "(case TemperatureState_UnmarshalJSON ?r ?b of
      Returns (r', Some e) \<Rightarrow> True | _ \<Rightarrow> False)"
    by code_simp
  then obtain r' e where 1: "TemperatureState_UnmarshalJSON ?r ?b = Returns (r', Some e)"
    by (auto split: outcome.splits option.splits)
  have "(case HistoricTemperatureData_UnmarshalJSON ?h ?c of
      Returns (h', Some e) \<Rightarrow> True | _ \<Rightarrow> False)"
    by code_simp
  then obtain h' e' where 2: "HistoricTemperatureData_UnmarshalJSON ?h ?c = Returns (h', Some e')"
    by (auto split: outcome.splits option.splits)
  from decode_errors_atomic [of ?r ?b r' e] 1 have "r' = ?r" by blast
  moreover from decode_errors_atomic [of _ ?c _ e' ?h h'] 2 have "h' = ?h" by blast
  ultimately show ?thesis using 1 2 by blast
qed



end
